theory Spec2Isabelle
  imports Main "HOL-Library.Multiset" "HOL-Library.Char_ord" "HOL-Library.List_Lexorder"
begin

section \<open>The command-line program \<^verbatim>\<open>bin/makemigration.js\<close>\<close>

text \<open>
  The script parses its options, makes sure the two bookkeeping tables exist, reads the
  last executed migration and the schema state stored for it, asks the library
  \<^verbatim>\<open>lib/migrate\<close> for the difference between that state and the current models, and
  then either reports that nothing changed, prints a preview, or writes a migration file
  and replaces the stored state.

  Everything the script does to the outside world is recorded, in order, as a list of
  events. The outcome of every call into the database, the file system and the library
  is taken from an environment record, so that a theorem about all environments is a
  theorem about every way those calls can turn out.
\<close>

subsection \<open>JavaScript values the script handles\<close>

text \<open>
  \<^verbatim>\<open>revision\<close> is the number \<^verbatim>\<open>-1\<close>, or the first element of a \<^verbatim>\<open>split\<close> (a string, or
  \<^verbatim>\<open>undefined\<close> were the array empty); the initial \<^verbatim>\<open>previousState.revision\<close> is the
  number \<^verbatim>\<open>0\<close>.
\<close>

datatype revision = RevNumber int | RevString string | RevUndefined

datatype js_error =
    Rejection string
  | ReferenceError string
  | TypeError string

text \<open>Truthiness of an optional string option value: \<^verbatim>\<open>undefined\<close>, \<^verbatim>\<open>null\<close> and the empty
  string are falsy.\<close>

definition truthy :: "string option \<Rightarrow> bool" where
  "truthy v = (case v of None \<Rightarrow> False | Some s \<Rightarrow> s \<noteq> [])"

text \<open>\<^verbatim>\<open>v || d\<close> and \<^verbatim>\<open>v ? v : d\<close> on an optional string.\<close>

definition or_default :: "string option \<Rightarrow> string \<Rightarrow> string" where
  "or_default v d = (case v of None \<Rightarrow> d | Some s \<Rightarrow> if s = [] then d else s)"

text \<open>Decimal rendering of a number inside a template literal.\<close>

definition digit_char :: "nat \<Rightarrow> char" where
  "digit_char d = char_of (48 + d)"

function show_nat :: "nat \<Rightarrow> string" where
  "show_nat n = (if n < 10 then [digit_char n] else show_nat (n div 10) @ [digit_char (n mod 10)])"
  by pat_completeness auto
termination
  by (relation "measure (\<lambda>n. n)") auto

definition show_int :: "int \<Rightarrow> string" where
  "show_int i = (if i < 0 then CHR ''-'' # show_nat (nat (- i)) else show_nat (nat i))"

fun revision_text :: "revision \<Rightarrow> string" where
  "revision_text (RevNumber i) = show_int i"
| "revision_text (RevString s) = s"
| "revision_text RevUndefined = ''undefined''"

text \<open>\<^verbatim>\<open>s.split(sep)\<close> for a one-character separator: the pieces between the separators,
  never an empty array.\<close>

fun split_char :: "char \<Rightarrow> string \<Rightarrow> string list" where
  "split_char sep [] = [[]]"
| "split_char sep (c # cs) =
     (if c = sep then [] # split_char sep cs
      else (case split_char sep cs of
              [] \<Rightarrow> [[c]]
            | p # ps \<Rightarrow> (c # p) # ps))"

text \<open>\<^verbatim>\<open>xs.join(sep)\<close>.\<close>

fun join :: "string \<Rightarrow> string list \<Rightarrow> string" where
  "join sep [] = []"
| "join sep [x] = x"
| "join sep (x # y # ys) = x @ sep @ join sep (y # ys)"

subsection \<open>Options\<close>

record option_definition =
  opt_name :: string
  opt_alias :: "string option"
  opt_description :: string

definition optionDefinitions :: "option_definition list" where
  "optionDefinitions =
    [\<lparr>opt_name = ''preview'', opt_alias = Some ''p'',
       opt_description = ''Show migration preview (does not change any files)''\<rparr>,
     \<lparr>opt_name = ''name'', opt_alias = Some ''n'',
       opt_description = ''Set migration name (default: \"noname\")''\<rparr>,
     \<lparr>opt_name = ''comment'', opt_alias = Some ''c'',
       opt_description = ''Set migration comment''\<rparr>,
     \<lparr>opt_name = ''execute'', opt_alias = Some ''x'',
       opt_description = ''Create new migration and execute it''\<rparr>,
     \<lparr>opt_name = ''migrations-path'', opt_alias = None,
       opt_description = ''The path to the migrations folder''\<rparr>,
     \<lparr>opt_name = ''models-path'', opt_alias = None,
       opt_description = ''The path to the models folder''\<rparr>,
     \<lparr>opt_name = ''verbose'', opt_alias = Some ''v'',
       opt_description = ''Show details about the execution''\<rparr>,
     \<lparr>opt_name = ''debug'', opt_alias = Some ''d'',
       opt_description = ''Show error messages to debug problems''\<rparr>,
     \<lparr>opt_name = ''keep-files'', opt_alias = Some ''k'',
       opt_description = ''Don't delete previous files from the current revision (requires a unique --name option for each file)''\<rparr>,
     \<lparr>opt_name = ''help'', opt_alias = Some ''h'',
       opt_description = ''Show this message''\<rparr>,
     \<lparr>opt_name = ''reset-state'', opt_alias = None,
       opt_description = ''reset state migration current state of db''\<rparr>]"

record options =
  preview :: bool
  migration_name :: "string option"
  comment :: "string option"
  execute :: bool
  migrations_path :: "string option"
  models_path :: "string option"
  verbose :: bool
  debug :: bool
  keep_files :: bool
  help_opt :: bool
  reset_state :: "string option"

text \<open>The script only ever reads \<^verbatim>\<open>options['reset-state']\<close> for its truthiness.\<close>

definition resetState :: "options \<Rightarrow> bool" where
  "resetState opts = truthy (reset_state opts)"

subsection \<open>Data exchanged with the library and the database\<close>

text \<open>
  \<^verbatim>\<open>getMigration\<close> returns an object with \<^verbatim>\<open>commandsUp\<close> and \<^verbatim>\<open>consoleOut\<close>; the
  script adds \<^verbatim>\<open>commandsDown\<close> to it.
\<close>

record generated =
  commandsUp :: "string list"
  consoleOut :: "string list"

record migration = generated +
  commandsDown :: "string list"

text \<open>A schema state as stored and as built by the script; \<open>'t\<close> is whatever the library
  uses for the \<^verbatim>\<open>tables\<close> object.\<close>

record 't schema_state =
  st_revision :: revision
  st_version :: "nat option"
  st_tables :: 't

record state_row =
  row_revision :: revision
  row_name :: string
  row_state :: string

record write_info =
  info_filename :: string
  info_name :: string

record column_spec =
  col_name :: string
  col_type :: string
  allowNull :: bool
  unique_key :: "bool option"
  primaryKey :: "bool option"

datatype query_type = SELECT | DELETE

subsection \<open>The environment\<close>

text \<open>
  The library \<^verbatim>\<open>lib/migrate\<close>, the database behind \<^verbatim>\<open>sequelize\<close>, the clock and the
  helpers \<^verbatim>\<open>path.join\<close>, \<^verbatim>\<open>js_beautify\<close> and \<^verbatim>\<open>JSON.stringify\<close> are outside the script.
  A promise is modelled by how it settles: \<open>None\<close> or \<open>Inr rows\<close> when fulfilled,
  \<open>Some err\<close> or \<open>Inl err\<close> when rejected. The synchronous library functions are taken
  to return normally. \<^verbatim>\<open>sortActions\<close> sorts its argument in place; the field gives the
  array after the call.
\<close>

record ('t, 'a) environment =
  cwd :: string
  path_join :: "string \<Rightarrow> string \<Rightarrow> string"
  now :: string
  beautify :: "string \<Rightarrow> string"
  stringify :: "'t schema_state \<Rightarrow> string"
  createTable :: "string \<Rightarrow> js_error option"
  select_name :: "string \<Rightarrow> js_error + string list"
  select_state :: "string \<Rightarrow> js_error + 't schema_state list"
  delete_rows :: "string \<Rightarrow> js_error option"
  bulkInsert :: "string \<Rightarrow> state_row list \<Rightarrow> js_error option"
  empty_tables :: 't
  reverseModels :: 't
  parseDifference :: "'t \<Rightarrow> 't \<Rightarrow> 'a list"
  sortActions :: "'a list \<Rightarrow> 'a list"
  getMigration :: "'a list \<Rightarrow> generated"
  pruneOldMigFiles :: "revision \<Rightarrow> string \<Rightarrow> options \<Rightarrow> js_error option"
  writeMigration :: "revision \<Rightarrow> migration \<Rightarrow> string \<Rightarrow> string \<Rightarrow> string \<Rightarrow> write_info"

subsection \<open>Observable events\<close>

datatype ('t, 'a) event =
    LoadModels string
  | LoggingOff
  | ConsoleLog string
  | ConsoleError js_error
  | ProcessExit int
  | CreateTableCall string "column_spec list"
  | Query string query_type
  | ReverseModels
  | ParseDifference 't 't
  | SortActions "'a list"
  | GetMigration "'a list"
  | PruneOldMigFiles revision string
  | WriteMigration revision migration string string string
  | BulkInsert string "state_row list"
  | UnhandledRejection js_error

subsection \<open>The script\<close>

definition tab :: char where
  "tab = CHR 0x09"

definition newline :: char where
  "newline = CHR 0x0A"

definition apostrophe :: char where
  "apostrophe = CHR 0x27"

text \<open>Lines 47 to 54: the usage text.\<close>

definition usage_line :: "option_definition \<Rightarrow> string" where
  "usage_line d =
     (let alias = (case opt_alias d of
                     None \<Rightarrow> [tab]
                   | Some a \<Rightarrow> if a = [] then [tab] else '' (-'' @ a @ '')'')
      in [tab] @ '' --'' @ opt_name d @ alias @ '' '' @ [tab] @ opt_description d)"

definition usage :: "('t, 'a) event list" where
  "usage =
     ConsoleLog (''Sequelize migration creation tool'' @ [newline, newline] @ ''Usage:'')
       # map (\<lambda>d. ConsoleLog (usage_line d)) optionDefinitions
       @ [ProcessExit 0]"

text \<open>Lines 56 and 57.\<close>

definition migrationsDir :: "options \<Rightarrow> ('t, 'a) environment \<Rightarrow> string" where
  "migrationsDir opts env = path_join env (cwd env) (or_default (migrations_path opts) ''migrations'')"

definition modelsDir :: "options \<Rightarrow> ('t, 'a) environment \<Rightarrow> string" where
  "modelsDir opts env = path_join env (cwd env) (or_default (models_path opts) ''models'')"

text \<open>Lines 66 to 70: the state assumed when none is stored.\<close>

definition initial_previousState :: "('t, 'a) environment \<Rightarrow> 't schema_state" where
  "initial_previousState env =
     \<lparr>st_revision = RevNumber 0, st_version = Some 1, st_tables = empty_tables env\<rparr>"

text \<open>The handler given to every \<^verbatim>\<open>.catch\<close>.\<close>

definition catch_handler :: "options \<Rightarrow> js_error \<Rightarrow> ('t, 'a) event list" where
  "catch_handler opts err = (if debug opts then [ConsoleError err] else [])"

text \<open>The columns of the two bookkeeping tables (lines 81 to 104).\<close>

definition meta_columns :: "column_spec list" where
  "meta_columns =
     [\<lparr>col_name = ''name'', col_type = ''STRING'', allowNull = False,
        unique_key = Some True, primaryKey = Some True\<rparr>]"

definition meta_migrations_columns :: "column_spec list" where
  "meta_migrations_columns =
     [\<lparr>col_name = ''revision'', col_type = ''STRING'', allowNull = False,
        unique_key = Some True, primaryKey = Some True\<rparr>,
      \<lparr>col_name = ''name'', col_type = ''STRING'', allowNull = False,
        unique_key = None, primaryKey = None\<rparr>,
      \<lparr>col_name = ''state'', col_type = ''JSON'', allowNull = False,
        unique_key = None, primaryKey = None\<rparr>]"

text \<open>The three SQL texts (lines 106, 113 and 181).\<close>

definition select_last_executed_sql :: string where
  "select_last_executed_sql = ''SELECT name FROM \"SequelizeMeta\" ORDER BY \"name\" desc limit 1''"

definition select_state_sql :: "revision \<Rightarrow> string" where
  "select_state_sql revision =
     ''SELECT state FROM \"SequelizeMetaMigrations\" where \"revision\" = ''
       @ [apostrophe] @ revision_text revision @ [apostrophe]"

definition delete_state_sql :: "string \<Rightarrow> revision \<Rightarrow> string" where
  "delete_state_sql sign revision =
     ''DELETE FROM \"SequelizeMetaMigrations\" where \"revision\" '' @ sign @ '' ''
       @ [apostrophe] @ revision_text revision @ [apostrophe]"

text \<open>The array destructuring \<^verbatim>\<open>([row]) =>\<close> of lines 107 and 114: the first row, or
  \<^verbatim>\<open>undefined\<close>.\<close>

definition first_row :: "'r list \<Rightarrow> 'r option" where
  "first_row rows = (case rows of [] \<Rightarrow> None | r # _ \<Rightarrow> Some r)"

text \<open>Line 108: \<^verbatim>\<open>lastExecutedMigration === undefined ? -1 : lastExecutedMigration.name.split('-')[0]\<close>.\<close>

definition revision_of :: "string option \<Rightarrow> revision" where
  "revision_of lastExecutedMigration =
     (case lastExecutedMigration of
        None \<Rightarrow> RevNumber (- 1)
      | Some nm \<Rightarrow> (case split_char CHR ''-'' nm of [] \<Rightarrow> RevUndefined | p # _ \<Rightarrow> RevString p))"

text \<open>Lines 115 to 117: the stored state is used unless \<^verbatim>\<open>--reset-state\<close> is given.\<close>

definition previousState :: "options \<Rightarrow> ('t, 'a) environment \<Rightarrow> 't schema_state option \<Rightarrow> 't schema_state" where
  "previousState opts env lastMigration =
     (case lastMigration of
        Some st \<Rightarrow> if \<not> resetState opts then st else initial_previousState env
      | None \<Rightarrow> initial_previousState env)"

text \<open>Lines 119 to 125.\<close>

definition currentState :: "options \<Rightarrow> ('t, 'a) environment \<Rightarrow> revision \<Rightarrow> 't schema_state" where
  "currentState opts env revision =
     \<lparr>st_revision = (if resetState opts then revision else RevString (now env)),
      st_version = None,
      st_tables = reverseModels env\<rparr>"

text \<open>Lines 127 to 138: both differences, both sorts, both generations, and the down
  commands taken from the second generation's up commands.\<close>

definition assemble :: "('t, 'a) environment \<Rightarrow> 't \<Rightarrow> 't \<Rightarrow> migration" where
  "assemble env previous current =
     (let actions = parseDifference env previous current;
          downActions = parseDifference env current previous;
          actions = sortActions env actions;
          downActions = sortActions env downActions;
          migration = getMigration env actions;
          tmp = getMigration env downActions
      in \<lparr>commandsUp = commandsUp migration, consoleOut = consoleOut migration,
          commandsDown = commandsUp tmp\<rparr>)"

definition assemble_calls :: "('t, 'a) environment \<Rightarrow> 't \<Rightarrow> 't \<Rightarrow> ('t, 'a) event list" where
  "assemble_calls env previous current =
     [ParseDifference previous current,
      ParseDifference current previous,
      SortActions (parseDifference env previous current),
      SortActions (parseDifference env current previous),
      GetMigration (sortActions env (parseDifference env previous current)),
      GetMigration (sortActions env (parseDifference env current previous))]"

text \<open>Lines 184 to 194: the callback run when the bulk insert is fulfilled. With
  \<^verbatim>\<open>--execute\<close> the template literal reads \<^verbatim>\<open>info\<close>, a \<^verbatim>\<open>const\<close> of the \<^verbatim>\<open>else\<close> block
  of line 160 that is not in scope here; the ReferenceError goes to the \<^verbatim>\<open>.catch\<close> of
  line 194.\<close>

definition on_bulk_inserted :: "options \<Rightarrow> string \<Rightarrow> ('t, 'a) event list" where
  "on_bulk_inserted opts nm =
     (if resetState opts
      then [ConsoleLog (''Reset state to latest migration of '' @ [apostrophe] @ nm @ [apostrophe]
              @ '' has been successfull'')]
      else [])
     @ (if verbose opts then [ConsoleLog ''Updated state on DB.''] else [])
     @ (if execute opts then catch_handler opts (ReferenceError ''info is not defined'')
        else [ProcessExit 0])"

text \<open>Lines 182 to 195: the callback run when the DELETE is fulfilled.\<close>

definition on_deleted :: "options \<Rightarrow> ('t, 'a) environment \<Rightarrow> string \<Rightarrow> state_row list \<Rightarrow> ('t, 'a) event list" where
  "on_deleted opts env nm rows =
     BulkInsert ''SequelizeMetaMigrations'' rows
       # (case bulkInsert env ''SequelizeMetaMigrations'' rows of
            Some err \<Rightarrow> catch_handler opts err
          | None \<Rightarrow> on_bulk_inserted opts nm)"

text \<open>Lines 156 to 196: the callback run when the pruning is fulfilled. It has no
  \<^verbatim>\<open>.catch\<close>: what it throws is an unhandled rejection.\<close>

definition on_pruned ::
  "options \<Rightarrow> ('t, 'a) environment \<Rightarrow> string option \<Rightarrow> revision \<Rightarrow> 't schema_state \<Rightarrow> migration
     \<Rightarrow> ('t, 'a) event list" where
  "on_pruned opts env lastExecutedMigration revision current migration =
     (case (if resetState opts
            then (case lastExecutedMigration of
                    None \<Rightarrow> Inl (TypeError ''Cannot read properties of undefined (reading name)'')
                  | Some nm \<Rightarrow> Inr (nm, []))
            else (let info = writeMigration env (st_revision current) migration
                               (migrationsDir opts env)
                               (or_default (migration_name opts) ''noname'')
                               (or_default (comment opts) [])
                  in Inr (info_name info,
                       [WriteMigration (st_revision current) migration (migrationsDir opts env)
                          (or_default (migration_name opts) ''noname'')
                          (or_default (comment opts) []),
                        ConsoleLog (''New migration to revision '' @ revision_text (st_revision current)
                          @ '' has been saved to file '' @ [apostrophe] @ info_filename info
                          @ [apostrophe])])))
      of
        Inl err \<Rightarrow> [UnhandledRejection err]
      | Inr (nm, saved) \<Rightarrow>
          saved @
          (let rows = [\<lparr>row_revision = st_revision current, row_name = nm,
                        row_state = stringify env current\<rparr>];
               sign = (if resetState opts then ''>='' else ''>'');
               sql = delete_state_sql sign revision
           in Query sql DELETE
                # (case delete_rows env sql of
                     Some err \<Rightarrow> catch_handler opts err
                   | None \<Rightarrow> on_deleted opts env nm rows)))"

text \<open>Lines 114 to 197: the callback run with the rows of the stored state.\<close>

definition preview_output :: "('t, 'a) environment \<Rightarrow> migration \<Rightarrow> ('t, 'a) event list" where
  "preview_output env migration =
     [ConsoleLog ''Migration result:'',
      ConsoleLog (beautify env (''[ '' @ [newline] @ join ('', '' @ [newline]) (commandsUp migration)
         @ '' '' @ [newline] @ ''];'' @ [newline])),
      ConsoleLog ''Undo commands:'',
      ConsoleLog (beautify env (''[ '' @ [newline] @ join ('', '' @ [newline]) (commandsDown migration)
         @ '' '' @ [newline] @ ''];'' @ [newline])),
      ProcessExit 0]"

definition on_last_migration ::
  "options \<Rightarrow> ('t, 'a) environment \<Rightarrow> string option \<Rightarrow> revision \<Rightarrow> 't schema_state list
     \<Rightarrow> ('t, 'a) event list" where
  "on_last_migration opts env lastExecutedMigration revision rows =
     (let lastMigration = first_row rows;
          previous = previousState opts env lastMigration;
          current = currentState opts env revision;
          migration = assemble env (st_tables previous) (st_tables current)
      in ReverseModels # assemble_calls env (st_tables previous) (st_tables current)
         @ (if \<not> resetState opts \<and> length (commandsUp migration) = 0
            then [ConsoleLog ''No changes found'', ProcessExit 0]
            else map (\<lambda>v. ConsoleLog (''[Actions] '' @ v)) (consoleOut migration)
              @ (if preview opts then preview_output env migration
                 else PruneOldMigFiles revision (migrationsDir opts env)
                   # (case pruneOldMigFiles env revision (migrationsDir opts env) opts of
                        Some err \<Rightarrow> [UnhandledRejection err]
                      | None \<Rightarrow> on_pruned opts env lastExecutedMigration revision current migration))))"

text \<open>Lines 107 to 198: the callback run with the rows of the last executed migration.\<close>

definition on_last_executed ::
  "options \<Rightarrow> ('t, 'a) environment \<Rightarrow> string list \<Rightarrow> ('t, 'a) event list" where
  "on_last_executed opts env rows =
     (let lastExecutedMigration = first_row rows;
          revision = revision_of lastExecutedMigration
      in if lastExecutedMigration = None \<and> resetState opts then [ProcessExit 0]
         else Query (select_state_sql revision) SELECT
           # (case select_state env (select_state_sql revision) of
                Inl err \<Rightarrow> catch_handler opts err
              | Inr states \<Rightarrow> on_last_migration opts env lastExecutedMigration revision states))"

text \<open>The whole script.\<close>

definition makemigration :: "options \<Rightarrow> ('t, 'a) environment \<Rightarrow> ('t, 'a) event list" where
  "makemigration opts env =
     (if help_opt opts then usage
      else LoadModels (modelsDir opts env)
        # (if \<not> debug opts then [LoggingOff] else [])
        @ CreateTableCall ''SequelizeMeta'' meta_columns
        # (case createTable env ''SequelizeMeta'' of
             Some err \<Rightarrow> catch_handler opts err
           | None \<Rightarrow>
               CreateTableCall ''SequelizeMetaMigrations'' meta_migrations_columns
               # (case createTable env ''SequelizeMetaMigrations'' of
                    Some err \<Rightarrow> catch_handler opts err
                  | None \<Rightarrow>
                      Query select_last_executed_sql SELECT
                      # (case select_name env select_last_executed_sql of
                           Inl err \<Rightarrow> catch_handler opts err
                         | Inr rows \<Rightarrow> on_last_executed opts env rows))))"

subsection \<open>Vocabulary for the properties of the script\<close>

text \<open>
  The events that change what is kept between runs: pruning migration files, writing a
  migration file, deleting state rows and inserting a state row.
\<close>

definition persists :: "('t, 'a) event \<Rightarrow> bool" where
  "persists ev =
     (case ev of
        PruneOldMigFiles _ _ \<Rightarrow> True
      | WriteMigration _ _ _ _ _ \<Rightarrow> True
      | Query _ DELETE \<Rightarrow> True
      | BulkInsert _ _ \<Rightarrow> True
      | _ \<Rightarrow> False)"

text \<open>
  How the promise behind a call event settles in a given environment: \<open>Some err\<close> when it is
  rejected. The calls are the two \<^verbatim>\<open>createTable\<close>, the two SELECT queries, the DELETE and
  the bulk insert.
\<close>

definition settled :: "js_error + 'r \<Rightarrow> js_error option" where
  "settled p = (case p of Inl err \<Rightarrow> Some err | Inr _ \<Rightarrow> None)"

definition rejection :: "('t, 'a) environment \<Rightarrow> ('t, 'a) event \<Rightarrow> js_error option" where
  "rejection env ev =
     (case ev of
        CreateTableCall tbl _ \<Rightarrow> createTable env tbl
      | Query sql SELECT \<Rightarrow>
          if sql = select_last_executed_sql then settled (select_name env sql)
          else settled (select_state env sql)
      | Query sql DELETE \<Rightarrow> delete_rows env sql
      | BulkInsert tbl rows \<Rightarrow> bulkInsert env tbl rows
      | _ \<Rightarrow> None)"

text \<open>
  The events up to and including the first query, in a run where both tables are created.
\<close>

definition startup :: "options \<Rightarrow> ('t, 'a) environment \<Rightarrow> ('t, 'a) event list" where
  "startup opts env =
     LoadModels (modelsDir opts env)
       # (if \<not> debug opts then [LoggingOff] else [])
       @ [CreateTableCall ''SequelizeMeta'' meta_columns,
          CreateTableCall ''SequelizeMetaMigrations'' meta_migrations_columns,
          Query select_last_executed_sql SELECT]"

text \<open>
  What the first two queries deliver in a given environment, and the tables the script takes
  as the previous ones.
\<close>

definition last_executed_of :: "('t, 'a) environment \<Rightarrow> string option" where
  "last_executed_of env =
     (case select_name env select_last_executed_sql of Inl _ \<Rightarrow> None | Inr names \<Rightarrow> first_row names)"

definition stored_state_of :: "('t, 'a) environment \<Rightarrow> 't schema_state option" where
  "stored_state_of env =
     (case select_state env (select_state_sql (revision_of (last_executed_of env))) of
        Inl _ \<Rightarrow> None
      | Inr states \<Rightarrow> first_row states)"

definition previous_tables :: "options \<Rightarrow> ('t, 'a) environment \<Rightarrow> 't" where
  "previous_tables opts env = st_tables (previousState opts env (stored_state_of env))"

text \<open>
  A run is quiet when it writes nothing to the error output, exits with status 0 if at all,
  and any rejected call in it is its last event.
\<close>

definition quiet :: "('t, 'a) environment \<Rightarrow> ('t, 'a) event list \<Rightarrow> bool" where
  "quiet env tr =
     (\<forall>ev \<in> set tr. (\<forall>e. ev \<noteq> ConsoleError e) \<and> (\<forall>n. ev = ProcessExit n \<longrightarrow> n = 0)
        \<and> (rejection env ev \<noteq> None \<longrightarrow> ev = last tr))"

subsection \<open>Example runs\<close>

text \<open>
  A small library over table names stands in for \<^verbatim>\<open>lib/migrate\<close> in the examples: the
  difference creates the tables that are new and drops those that are gone. The database
  has one executed migration, with the table \<^verbatim>\<open>Users\<close> stored for it; the models define
  \<^verbatim>\<open>Users\<close> and \<^verbatim>\<open>Posts\<close>.
\<close>

definition demo_options :: options where
  "demo_options =
     \<lparr>preview = False, migration_name = None, comment = None, execute = False,
      migrations_path = None, models_path = None, verbose = False, debug = False,
      keep_files = False, help_opt = False, reset_state = None\<rparr>"

definition demo_env :: "(string list, string) environment" where
  "demo_env =
     \<lparr>cwd = ''/app'',
      path_join = (\<lambda>a b. a @ ''/'' @ b),
      now = ''20240101120000'',
      beautify = (\<lambda>s. s),
      stringify = (\<lambda>st. join '','' (st_tables st)),
      createTable = (\<lambda>_. None),
      select_name = (\<lambda>_. Inr [''20230101120000-init.js'']),
      select_state = (\<lambda>_. Inr [\<lparr>st_revision = RevString ''20230101120000'', st_version = None,
                                   st_tables = [''Users'']\<rparr>]),
      delete_rows = (\<lambda>_. None),
      bulkInsert = (\<lambda>_ _. None),
      empty_tables = [],
      reverseModels = [''Users'', ''Posts''],
      parseDifference = (\<lambda>src tgt. map (\<lambda>t. ''create '' @ t) (filter (\<lambda>t. t \<notin> set src) tgt)
                                   @ map (\<lambda>t. ''drop '' @ t) (filter (\<lambda>t. t \<notin> set tgt) src)),
      sortActions = (\<lambda>acts. acts),
      getMigration = (\<lambda>acts. \<lparr>commandsUp = acts, consoleOut = acts\<rparr>),
      pruneOldMigFiles = (\<lambda>_ _ _. None),
      writeMigration = (\<lambda>r m dir nm cmt.
         \<lparr>info_filename = dir @ ''/'' @ revision_text r @ ''-'' @ nm @ ''.js'',
          info_name = revision_text r @ ''-'' @ nm\<rparr>)\<rparr>"

definition unchanged_env :: "(string list, string) environment" where
  "unchanged_env = demo_env\<lparr>reverseModels := [''Users'']\<rparr>"

definition no_models_env :: "(string list, string) environment" where
  "no_models_env = demo_env\<lparr>reverseModels := []\<rparr>"

definition fresh_database_env :: "(string list, string) environment" where
  "fresh_database_env = demo_env\<lparr>select_name := (\<lambda>_. Inr []), select_state := (\<lambda>_. Inr [])\<rparr>"

definition failing_insert_env :: "(string list, string) environment" where
  "failing_insert_env = demo_env\<lparr>bulkInsert := (\<lambda>_ _. Some (Rejection ''connection lost''))\<rparr>"

definition preview_options :: options where
  "preview_options = demo_options\<lparr>preview := True\<rparr>"

definition reset_options :: options where
  "reset_options = demo_options\<lparr>reset_state := Some ''1''\<rparr>"

definition empty_reset_options :: options where
  "empty_reset_options = demo_options\<lparr>reset_state := Some []\<rparr>"

section \<open>The library \<^verbatim>\<open>lib/migrate\<close>, from its specification\<close>

text \<open>
  The script calls \<^verbatim>\<open>parseDifference\<close>, \<^verbatim>\<open>sortActions\<close> and \<^verbatim>\<open>getMigration\<close> of
  \<^verbatim>\<open>lib/migrate\<close>. That file is not among the sources at hand, so the first two are modelled
  from the specification: its data model (section 3), the DiffEngine (section 4.1) and the
  ActionSorter (section 4.2). The third, the MigrationGenerator, stays a call of the
  environment of the script.
\<close>

subsection \<open>Data model\<close>

type_synonym name = string

text \<open>Modelled from the spec: the data type of a column of \<^verbatim>\<open>lib/migrate\<close>, "semantic, e.g.
  integer/string/boolean/decimal/timestamp with parameters such as length/precision".\<close>

datatype data_type =
    IntegerType
  | StringType nat
  | BooleanType
  | DecimalType nat nat
  | TimestampType

text \<open>Modelled from the spec: the ColumnDef of \<^verbatim>\<open>lib/migrate\<close>, "data type, nullability flag,
  default value (optional), primary-key flag, unique flag, auto-increment flag".\<close>

record column_def =
  col_data_type :: data_type
  nullable :: bool
  default_value :: "string option"
  primary_key :: bool
  unique_flag :: bool
  auto_increment :: bool

text \<open>Modelled from the spec: the IndexDef of \<^verbatim>\<open>lib/migrate\<close>, "ordered sequence of column
  names, uniqueness flag, optional index type".\<close>

record index_def =
  index_columns :: "name list"
  index_unique :: bool
  index_type :: "string option"

text \<open>Modelled from the spec: the on-update and on-delete behaviour of a foreign key of
  \<^verbatim>\<open>lib/migrate\<close>.\<close>

datatype referential_action = NoAction | Restrict | Cascade | SetNull | SetDefault

text \<open>Modelled from the spec: the ForeignKeyDef of \<^verbatim>\<open>lib/migrate\<close>, "source column(s),
  referenced table, referenced column(s), on-update/on-delete behavior".\<close>

record foreign_key_def =
  source_columns :: "name list"
  referenced_table :: name
  referenced_columns :: "name list"
  on_update :: referential_action
  on_delete :: referential_action

text \<open>Modelled from the spec: the TableDef of \<^verbatim>\<open>lib/migrate\<close>, "table name; mapping from
  column name to ColumnDef; mapping from index name to IndexDef; mapping from foreign-key
  name to ForeignKeyDef". A mapping is kept as the list of its entries, in the order in
  which they are enumerated, and read by key.\<close>

record table_def =
  table_name :: name
  columns :: "(name \<times> column_def) list"
  indexes :: "(name \<times> index_def) list"
  foreign_keys :: "(name \<times> foreign_key_def) list"

text \<open>Modelled from the spec: the Snapshot of \<^verbatim>\<open>lib/migrate\<close>, "mapping from table name
  (unique key) to TableDef".\<close>

type_synonym snapshot = "(name \<times> table_def) list"

text \<open>Modelled from the spec: the Action of \<^verbatim>\<open>lib/migrate\<close>, a "tagged variant" over the nine
  kinds that "carries: target table name, and kind-specific payload (full
  ColumnDef/IndexDef/ForeignKeyDef for additions; both old and new definitions for
  changeColumn)". Every action being "self-sufficient", a removal carries the definition it
  removes.\<close>

datatype action =
    CreateTable name table_def
  | DropTable name table_def
  | AddColumn name name column_def
  | RemoveColumn name name column_def
  | ChangeColumn name name column_def column_def
  | AddIndex name name index_def
  | RemoveIndex name name index_def
  | AddForeignKey name name foreign_key_def
  | RemoveForeignKey name name foreign_key_def

text \<open>Modelled from the spec: the target table name every Action of \<^verbatim>\<open>lib/migrate\<close> carries.\<close>

fun target_table :: "action \<Rightarrow> name" where
  "target_table (CreateTable t _) = t"
| "target_table (DropTable t _) = t"
| "target_table (AddColumn t _ _) = t"
| "target_table (RemoveColumn t _ _) = t"
| "target_table (ChangeColumn t _ _ _) = t"
| "target_table (AddIndex t _ _) = t"
| "target_table (RemoveIndex t _ _) = t"
| "target_table (AddForeignKey t _ _) = t"
| "target_table (RemoveForeignKey t _ _) = t"

subsection \<open>DiffEngine\<close>

text \<open>Modelled from the spec: the key under which \<^verbatim>\<open>parseDifference\<close> of \<^verbatim>\<open>lib/migrate\<close>
  compares indexes, "index identity = sorted column list + uniqueness".\<close>

definition index_identity :: "index_def \<Rightarrow> name list \<times> bool" where
  "index_identity i = (sort (index_columns i), index_unique i)"

text \<open>Modelled from the spec: the key under which \<^verbatim>\<open>parseDifference\<close> of \<^verbatim>\<open>lib/migrate\<close>
  compares foreign keys, "source column + referenced table".\<close>

definition foreign_key_identity :: "foreign_key_def \<Rightarrow> name list \<times> name" where
  "foreign_key_identity f = (source_columns f, referenced_table f)"

text \<open>Modelled from the spec: the column comparison of \<^verbatim>\<open>parseDifference\<close> of \<^verbatim>\<open>lib/migrate\<close>
  for a table present in both snapshots: "column present only in target: addColumn; column
  present only in source: removeColumn; column present in both but with a differing
  attribute: changeColumn carrying both the old and new ColumnDef".\<close>

definition diff_columns :: "name \<Rightarrow> (name \<times> column_def) list \<Rightarrow> (name \<times> column_def) list \<Rightarrow> action list" where
  "diff_columns t source target =
     concat (map (\<lambda>c. case (map_of source c, map_of target c) of
                         (None, Some d) \<Rightarrow> [AddColumn t c d]
                       | _ \<Rightarrow> []) (map fst target))
     @ concat (map (\<lambda>c. case (map_of source c, map_of target c) of
                         (Some d, None) \<Rightarrow> [RemoveColumn t c d]
                       | _ \<Rightarrow> []) (map fst source))
     @ concat (map (\<lambda>c. case (map_of source c, map_of target c) of
                         (Some old, Some new) \<Rightarrow> if old \<noteq> new then [ChangeColumn t c old new] else []
                       | _ \<Rightarrow> []) (map fst target))"

text \<open>Modelled from the spec: the comparison of \<^verbatim>\<open>parseDifference\<close> of \<^verbatim>\<open>lib/migrate\<close> for
  entries that are "keyed by" an identity: an entry whose identity occurs only in the target
  is added, one whose identity occurs only in the source is removed.\<close>

definition diff_keyed ::
  "('v \<Rightarrow> 'i) \<Rightarrow> (name \<Rightarrow> 'v \<Rightarrow> action) \<Rightarrow> (name \<Rightarrow> 'v \<Rightarrow> action)
     \<Rightarrow> (name \<times> 'v) list \<Rightarrow> (name \<times> 'v) list \<Rightarrow> action list" where
  "diff_keyed identity add remove source target =
     concat (map (\<lambda>(n, v). if identity v \<in> set (map (identity \<circ> snd) source) then []
                           else [add n v]) target)
     @ concat (map (\<lambda>(n, v). if identity v \<in> set (map (identity \<circ> snd) target) then []
                           else [remove n v]) source)"

text \<open>Modelled from the spec: the index comparison of \<^verbatim>\<open>parseDifference\<close> of \<^verbatim>\<open>lib/migrate\<close>,
  "the same comparison logic" giving addIndex and removeIndex, keyed by index identity.\<close>

definition diff_indexes :: "name \<Rightarrow> (name \<times> index_def) list \<Rightarrow> (name \<times> index_def) list \<Rightarrow> action list" where
  "diff_indexes t source target = diff_keyed index_identity (AddIndex t) (RemoveIndex t) source target"

text \<open>Modelled from the spec: the foreign-key comparison of \<^verbatim>\<open>parseDifference\<close> of
  \<^verbatim>\<open>lib/migrate\<close>, giving addForeignKey and removeForeignKey, keyed by source column and
  referenced table.\<close>

definition diff_foreign_keys ::
  "name \<Rightarrow> (name \<times> foreign_key_def) list \<Rightarrow> (name \<times> foreign_key_def) list \<Rightarrow> action list" where
  "diff_foreign_keys t source target =
     diff_keyed foreign_key_identity (AddForeignKey t) (RemoveForeignKey t) source target"

text \<open>Modelled from the spec: step 3 of \<^verbatim>\<open>parseDifference\<close> of \<^verbatim>\<open>lib/migrate\<close>, "for every
  table present in both: compare column sets, index sets, and foreign-key sets
  independently".\<close>

definition diff_table :: "name \<Rightarrow> table_def \<Rightarrow> table_def \<Rightarrow> action list" where
  "diff_table t source target =
     diff_columns t (columns source) (columns target)
     @ diff_indexes t (indexes source) (indexes target)
     @ diff_foreign_keys t (foreign_keys source) (foreign_keys target)"

text \<open>Modelled from the spec: \<^verbatim>\<open>parseDifference\<close> of \<^verbatim>\<open>lib/migrate\<close>, the DiffEngine's
  \<^verbatim>\<open>diff(source, target)\<close>: one createTable with the full TableDef for every table only in
  the target, one dropTable for every table only in the source, and the comparison of the
  tables present in both. Well-formedness of a snapshot is a matter of types here, so the
  InvalidSnapshot failure has no counterpart.\<close>

definition diff :: "snapshot \<Rightarrow> snapshot \<Rightarrow> action list" where
  "diff source target =
     concat (map (\<lambda>t. case (map_of source t, map_of target t) of
                         (None, Some d) \<Rightarrow> [CreateTable t d]
                       | _ \<Rightarrow> []) (map fst target))
     @ concat (map (\<lambda>t. case (map_of source t, map_of target t) of
                         (Some d, None) \<Rightarrow> [DropTable t d]
                       | _ \<Rightarrow> []) (map fst source))
     @ concat (map (\<lambda>t. case (map_of source t, map_of target t) of
                         (Some s, Some d) \<Rightarrow> diff_table t s d
                       | _ \<Rightarrow> []) (map fst target))"

subsection \<open>ActionSorter\<close>

text \<open>Modelled from the spec: the kinds of action that, in \<^verbatim>\<open>sortActions\<close> of \<^verbatim>\<open>lib/migrate\<close>,
  depend on the createTable of their own table: "every addColumn, addIndex, addForeignKey,
  changeColumn, removeColumn, removeIndex action on table T".\<close>

fun alters_table :: "action \<Rightarrow> bool" where
  "alters_table (AddColumn _ _ _) = True"
| "alters_table (AddIndex _ _ _) = True"
| "alters_table (AddForeignKey _ _ _) = True"
| "alters_table (ChangeColumn _ _ _ _) = True"
| "alters_table (RemoveColumn _ _ _) = True"
| "alters_table (RemoveIndex _ _ _) = True"
| "alters_table _ = False"

text \<open>Modelled from the spec: "T's createTable action", for \<^verbatim>\<open>sortActions\<close> of \<^verbatim>\<open>lib/migrate\<close>.\<close>

fun creates :: "action \<Rightarrow> name \<Rightarrow> bool" where
  "creates (CreateTable t _) r = (t = r)"
| "creates _ r = False"

text \<open>Modelled from the spec: "a dropTable action for table T", for \<^verbatim>\<open>sortActions\<close> of
  \<^verbatim>\<open>lib/migrate\<close>.\<close>

fun drops :: "action \<Rightarrow> name \<Rightarrow> bool" where
  "drops (DropTable t _) r = (t = r)"
| "drops _ r = False"

text \<open>Modelled from the spec: "an addForeignKey action referencing table R", for
  \<^verbatim>\<open>sortActions\<close> of \<^verbatim>\<open>lib/migrate\<close>.\<close>

fun adds_reference_to :: "action \<Rightarrow> name \<Rightarrow> bool" where
  "adds_reference_to (AddForeignKey _ _ f) r = (referenced_table f = r)"
| "adds_reference_to _ r = False"

text \<open>Modelled from the spec: an action that "references T as a foreign-key target" among
  those a dropTable waits for, in \<^verbatim>\<open>sortActions\<close> of \<^verbatim>\<open>lib/migrate\<close>: a removeForeignKey
  whose foreign key points to T.\<close>

fun removes_reference_to :: "action \<Rightarrow> name \<Rightarrow> bool" where
  "removes_reference_to (RemoveForeignKey _ _ f) r = (referenced_table f = r)"
| "removes_reference_to _ r = False"

text \<open>Modelled from the spec: the kinds of action a dropTable waits for in \<^verbatim>\<open>sortActions\<close> of
  \<^verbatim>\<open>lib/migrate\<close>, "every removeForeignKey/removeColumn/removeIndex action".\<close>

fun detaches :: "action \<Rightarrow> bool" where
  "detaches (RemoveForeignKey _ _ _) = True"
| "detaches (RemoveColumn _ _ _) = True"
| "detaches (RemoveIndex _ _ _) = True"
| "detaches _ = False"

text \<open>Modelled from the spec: a TableDef that carries a foreign key referencing table R, for
  the create order of \<^verbatim>\<open>sortActions\<close> of \<^verbatim>\<open>lib/migrate\<close>.\<close>

definition carries_key_to :: "table_def \<Rightarrow> name \<Rightarrow> bool" where
  "carries_key_to d r = list_ex (\<lambda>e. referenced_table (snd e) = r) (foreign_keys d)"

text \<open>Modelled from the spec: the create order of \<^verbatim>\<open>sortActions\<close> of \<^verbatim>\<open>lib/migrate\<close>. "An
  Action referencing table T implicitly depends on T's existence": a createTable whose
  TableDef carries a foreign key to another table waits for that table's createTable. A key
  to the table itself asks for nothing.\<close>

fun awaits_creation_of :: "action \<Rightarrow> name \<Rightarrow> bool" where
  "awaits_creation_of (CreateTable t d) r = (r \<noteq> t \<and> carries_key_to d r)"
| "awaits_creation_of _ r = False"

text \<open>Modelled from the spec: the dependency graph of \<^verbatim>\<open>sortActions\<close> of \<^verbatim>\<open>lib/migrate\<close>. An
  action on table T depends on T's createTable; an addForeignKey referencing R depends on
  R's createTable; a createTable carrying a foreign key to another table R depends on R's
  createTable; a dropTable of T depends on every removeForeignKey, removeColumn and
  removeIndex that targets T or references T as a foreign-key target.\<close>

definition depends_on :: "action \<Rightarrow> action \<Rightarrow> bool" where
  "depends_on a b =
     ((alters_table a \<and> creates b (target_table a))
      \<or> (case a of AddForeignKey _ _ f \<Rightarrow> creates b (referenced_table f) | _ \<Rightarrow> False)
      \<or> (case b of CreateTable r _ \<Rightarrow> awaits_creation_of a r | _ \<Rightarrow> False)
      \<or> (drops a (target_table a) \<and> detaches b
           \<and> (target_table b = target_table a \<or> removes_reference_to b (target_table a))))"

text \<open>Modelled from the spec: the foreign-key deferral rule of \<^verbatim>\<open>sortActions\<close> of
  \<^verbatim>\<open>lib/migrate\<close>. "Mutual foreign-key dependencies between two tables created in the same
  batch cannot be linearized by create-order alone": a foreign key of a created table T is
  conflicting when it references another table that is created in the batch with a foreign
  key back to T. As in Scenario 3 of the specification, the keys of both tables are
  conflicting.\<close>

definition conflicting :: "action list \<Rightarrow> name \<Rightarrow> foreign_key_def \<Rightarrow> bool" where
  "conflicting acts t f =
     (referenced_table f \<noteq> t
      \<and> list_ex (\<lambda>b. case b of
                        CreateTable r d \<Rightarrow> r = referenced_table f \<and> carries_key_to d t
                      | _ \<Rightarrow> False) acts)"

text \<open>Modelled from the spec: in \<^verbatim>\<open>sortActions\<close> of \<^verbatim>\<open>lib/migrate\<close>, "the policy is to allow
  createTable to omit the conflicting foreign key".\<close>

fun omit_conflicting :: "action list \<Rightarrow> action \<Rightarrow> action" where
  "omit_conflicting acts (CreateTable t d) =
     CreateTable t (d\<lparr>foreign_keys := filter (\<lambda>e. \<not> conflicting acts t (snd e)) (foreign_keys d)\<rparr>)"
| "omit_conflicting acts a = a"

text \<open>Modelled from the spec: in \<^verbatim>\<open>sortActions\<close> of \<^verbatim>\<open>lib/migrate\<close>, the policy is "to
  schedule it as a separate addForeignKey action".\<close>

fun deferred_keys :: "action list \<Rightarrow> action \<Rightarrow> action list" where
  "deferred_keys acts (CreateTable t d) =
     map (\<lambda>e. AddForeignKey t (fst e) (snd e)) (filter (\<lambda>e. conflicting acts t (snd e)) (foreign_keys d))"
| "deferred_keys acts a = []"

text \<open>Modelled from the spec: the batch of \<^verbatim>\<open>sortActions\<close> of \<^verbatim>\<open>lib/migrate\<close> after the
  foreign-key deferral rule: every action, the createTable actions without their conflicting
  keys, followed by the addForeignKey actions for those keys.\<close>

definition defer_foreign_keys :: "action list \<Rightarrow> action list" where
  "defer_foreign_keys acts = map (omit_conflicting acts) acts @ concat (map (deferred_keys acts) acts)"


text \<open>Modelled from the spec: the failure of \<^verbatim>\<open>sortActions\<close> of \<^verbatim>\<open>lib/migrate\<close>, "a
  CyclicDependency condition identifying the involved tables".\<close>

datatype sort_error = CyclicDependency "name list"

text \<open>Modelled from the spec: the choice made by \<^verbatim>\<open>sortActions\<close> of \<^verbatim>\<open>lib/migrate\<close> at each
  step, "pick the one that appeared earliest in the input order": the first element with
  the property, and the list without it.\<close>

fun pick :: "('a \<Rightarrow> bool) \<Rightarrow> 'a list \<Rightarrow> ('a \<times> 'a list) option" where
  "pick P [] = None"
| "pick P (x # xs) =
     (if P x then Some (x, xs)
      else (case pick P xs of None \<Rightarrow> None | Some (y, ys) \<Rightarrow> Some (y, x # ys)))"

text \<open>Modelled from the spec: an action "with no remaining unresolved dependency" in
  \<^verbatim>\<open>sortActions\<close> of \<^verbatim>\<open>lib/migrate\<close>: it depends on none of the actions still pending.\<close>

definition ready :: "action list \<Rightarrow> action \<Rightarrow> bool" where
  "ready pending a = (\<forall>b \<in> set pending. \<not> depends_on a b)"

text \<open>Modelled from the spec: the stable topological sort of \<^verbatim>\<open>sortActions\<close> of
  \<^verbatim>\<open>lib/migrate\<close>: as long as actions are pending, the earliest ready one is emitted; when
  none is ready a cycle remains and the sort fails, naming the tables of the pending
  actions.\<close>

function topological_sort :: "action list \<Rightarrow> sort_error + action list" where
  "topological_sort pending =
     (if pending = [] then Inr []
      else (case pick (ready pending) pending of
              None \<Rightarrow> Inl (CyclicDependency (remdups (map target_table pending)))
            | Some (a, rest) \<Rightarrow>
                (case topological_sort rest of Inl err \<Rightarrow> Inl err | Inr ordered \<Rightarrow> Inr (a # ordered))))"
  by pat_completeness auto
termination
proof -
  have shorter: "length ys < length xs" if "pick P xs = Some (y, ys)"
    for P :: "action \<Rightarrow> bool" and xs y ys
    using that by (induction xs arbitrary: y ys) (auto split: if_splits option.splits)
  show ?thesis
    by (relation "measure length") (auto dest: shorter)
qed

declare topological_sort.simps [simp del]

text \<open>Modelled from the spec: \<^verbatim>\<open>sortActions\<close> of \<^verbatim>\<open>lib/migrate\<close>, the ActionSorter's
  \<^verbatim>\<open>sort(actions)\<close>: the foreign-key deferral rule, then the stable topological sort, which
  "fails only if a true cycle remains after the foreign-key deferral rule is applied".\<close>

definition sort_actions :: "action list \<Rightarrow> sort_error + action list" where
  "sort_actions acts = topological_sort (defer_foreign_keys acts)"

text \<open>Modelled from the spec: "an ordered Action sequence already satisfying dependency
  order", for \<^verbatim>\<open>sortActions\<close> of \<^verbatim>\<open>lib/migrate\<close>: no action depends on one that comes after
  it.\<close>

fun dependency_ordered :: "action list \<Rightarrow> bool" where
  "dependency_ordered [] = True"
| "dependency_ordered (a # rest) = (ready rest a \<and> dependency_ordered rest)"

subsection \<open>Example schemas and actions\<close>

definition id_column :: column_def where
  "id_column = \<lparr>col_data_type = IntegerType, nullable = False, default_value = None,
                 primary_key = True, unique_flag = True, auto_increment = True\<rparr>"

definition title_column :: column_def where
  "title_column = \<lparr>col_data_type = StringType 255, nullable = True, default_value = None,
                    primary_key = False, unique_flag = False, auto_increment = False\<rparr>"

definition author_key :: foreign_key_def where
  "author_key = \<lparr>source_columns = [''userId''], referenced_table = ''Users'',
                  referenced_columns = [''id''], on_update = Cascade, on_delete = SetNull\<rparr>"

definition users_table :: table_def where
  "users_table = \<lparr>table_name = ''Users'', columns = [(''id'', id_column)], indexes = [],
                   foreign_keys = []\<rparr>"

definition posts_table :: table_def where
  "posts_table = \<lparr>table_name = ''Posts'', columns = [(''id'', id_column), (''userId'', id_column)],
                   indexes = [(''posts_user'', \<lparr>index_columns = [''userId''], index_unique = False,
                                                index_type = None\<rparr>)],
                   foreign_keys = [(''posts_author'', author_key)]\<rparr>"

definition blog_snapshot :: snapshot where
  "blog_snapshot = [(''Users'', users_table), (''Posts'', posts_table)]"

definition unsorted_actions :: "action list" where
  "unsorted_actions =
     [AddColumn ''Posts'' ''title'' title_column,
      DropTable ''Users'' users_table,
      RemoveForeignKey ''Comments'' ''comments_author'' author_key,
      CreateTable ''Posts'' posts_table]"

definition sorted_actions :: "action list" where
  "sorted_actions =
     [RemoveForeignKey ''Comments'' ''comments_author'' author_key,
      DropTable ''Users'' users_table,
      CreateTable ''Posts'' posts_table,
      AddColumn ''Posts'' ''title'' title_column]"








section \<open>Properties of the script\<close>

subsection \<open>Evaluation on the example runs\<close>

lemmas demo_defs = demo_env_def demo_options_def unchanged_env_def no_models_env_def
  fresh_database_env_def failing_insert_env_def preview_options_def reset_options_def
  empty_reset_options_def

lemmas script_defs = makemigration_def on_last_executed_def on_last_migration_def on_pruned_def
  on_deleted_def on_bulk_inserted_def catch_handler_def usage_def startup_def assemble_def
  assemble_calls_def preview_output_def previousState_def currentState_def initial_previousState_def
  first_row_def revision_of_def resetState_def truthy_def or_default_def migrationsDir_def
  modelsDir_def Let_def

subsection \<open>The run up to the computation of the difference\<close>

lemma select_sql_distinct: "select_state_sql r \<noteq> select_last_executed_sql"
  by (simp add: select_state_sql_def select_last_executed_sql_def)

lemma makemigration_to_last_executed:
  assumes "\<not> help_opt opts"
    and "createTable env ''SequelizeMeta'' = None"
    and "createTable env ''SequelizeMetaMigrations'' = None"
    and "select_name env select_last_executed_sql = Inr names"
  shows "makemigration opts env = startup opts env @ on_last_executed opts env names"
  using assms by (simp add: makemigration_def startup_def)




subsection \<open>Nothing to migrate\<close>




subsection \<open>The assembled migration\<close>

lemma written_migration_on_pruned:
  "WriteMigration r m dir nm cmt \<in> set (on_pruned opts env le rv cur mig) \<Longrightarrow> m = mig"
  by (auto simp: on_pruned_def Let_def on_deleted_def on_bulk_inserted_def catch_handler_def
      split: option.splits if_splits)

lemma written_migration_on_last_migration:
  "WriteMigration r m dir nm cmt \<in> set (on_last_migration opts env le rv states) \<Longrightarrow>
     m = assemble env (st_tables (previousState opts env (first_row states))) (reverseModels env)"
  by (auto simp: on_last_migration_def Let_def assemble_calls_def preview_output_def currentState_def
      dest: written_migration_on_pruned split: option.splits if_splits)

lemma written_migration_makemigration:
  "WriteMigration r m dir nm cmt \<in> set (makemigration opts env) \<Longrightarrow>
     m = assemble env (previous_tables opts env) (reverseModels env)"
  by (auto simp: makemigration_def usage_def catch_handler_def on_last_executed_def Let_def
      previous_tables_def stored_state_of_def last_executed_of_def
      dest: written_migration_on_last_migration split: option.splits if_splits sum.splits)

text \<open>
  Claim C7. The migration handed to \<^verbatim>\<open>writeMigration\<close> has as its up commands the commands
  generated from the sorted difference from the previous to the current tables, and as its
  down commands the up commands generated from the sorted difference from the current to
  the previous tables. The previous tables are those of the state stored for the last
  executed migration (or the empty initial state), the current tables are what
  \<^verbatim>\<open>reverseModels\<close> returns.
\<close>

theorem artifact_up_and_down:
  assumes "WriteMigration r m dir nm cmt \<in> set (makemigration opts env)"
  shows "commandsUp m = commandsUp (getMigration env (sortActions env
           (parseDifference env (previous_tables opts env) (reverseModels env))))
       \<and> commandsDown m = commandsUp (getMigration env (sortActions env
           (parseDifference env (reverseModels env) (previous_tables opts env))))"
  using written_migration_makemigration [OF assms] by (simp add: assemble_def Let_def)

theorem artifact_up_and_down_witness:
  "WriteMigration (RevString ''20240101120000'')
      \<lparr>commandsUp = [''create Posts''], consoleOut = [''create Posts''], commandsDown = [''drop Posts'']\<rparr>
      ''/app/migrations'' ''noname'' []
     \<in> set (makemigration demo_options demo_env)
   \<and> previous_tables demo_options demo_env = [''Users'']
   \<and> commandsUp (getMigration demo_env (sortActions demo_env
         (parseDifference demo_env [''Users''] (reverseModels demo_env)))) = [''create Posts'']
   \<and> commandsUp (getMigration demo_env (sortActions demo_env
         (parseDifference demo_env (reverseModels demo_env) [''Users'']))) = [''drop Posts'']"
proof -
  have written: "WriteMigration (RevString ''20240101120000'')
      \<lparr>commandsUp = [''create Posts''], consoleOut = [''create Posts''], commandsDown = [''drop Posts'']\<rparr>
      ''/app/migrations'' ''noname'' []
     \<in> set (makemigration demo_options demo_env)"
    by (simp add: demo_defs script_defs)
  have prev: "previous_tables demo_options demo_env = [''Users'']"
    by (simp add: demo_defs script_defs previous_tables_def stored_state_of_def last_executed_of_def)
  show ?thesis
    using artifact_up_and_down [OF written] written prev by simp
qed

subsection \<open>Preview\<close>








subsection \<open>Rejections without \<^verbatim>\<open>--debug\<close>\<close>

lemma quiet_Nil: "quiet env []"
  by (simp add: quiet_def)

lemma quiet_single: "(\<forall>e. ev \<noteq> ConsoleError e) \<Longrightarrow> (\<forall>n. ev = ProcessExit n \<longrightarrow> n = 0) \<Longrightarrow> quiet env [ev]"
  by (simp add: quiet_def)

lemma quiet_Cons:
  "quiet env tr \<Longrightarrow> (\<forall>e. ev \<noteq> ConsoleError e) \<Longrightarrow> (\<forall>n. ev = ProcessExit n \<longrightarrow> n = 0)
     \<Longrightarrow> rejection env ev = None \<or> tr = [] \<Longrightarrow> quiet env (ev # tr)"
  by (auto simp: quiet_def)

lemma quiet_append:
  "quiet env tr \<Longrightarrow> \<forall>ev \<in> set pre. (\<forall>e. ev \<noteq> ConsoleError e) \<and> (\<forall>n. ev = ProcessExit n \<longrightarrow> n = 0)
        \<and> rejection env ev = None \<Longrightarrow> quiet env (pre @ tr)"
  by (cases "tr = []") (auto simp: quiet_def)

lemma quiet_on_bulk_inserted: "\<not> debug opts \<Longrightarrow> quiet env (on_bulk_inserted opts nm)"
  by (auto simp: quiet_def on_bulk_inserted_def catch_handler_def rejection_def)

lemma quiet_on_deleted: "\<not> debug opts \<Longrightarrow> quiet env (on_deleted opts env nm rows)"
  unfolding on_deleted_def
  by (rule quiet_Cons) (auto simp: quiet_on_bulk_inserted quiet_Nil catch_handler_def rejection_def
      split: option.splits)

lemma quiet_on_pruned:
  "\<not> debug opts \<Longrightarrow> lastExecutedMigration = None \<longrightarrow> \<not> resetState opts \<Longrightarrow>
     quiet env (on_pruned opts env lastExecutedMigration rv cur mig)"
  unfolding on_pruned_def Let_def
  by (auto simp: rejection_def catch_handler_def quiet_on_deleted quiet_Nil
      intro!: quiet_Cons quiet_append [of _ _ "[a, b]" for a b, simplified] split: option.splits)

lemma quiet_on_last_migration:
  "\<not> debug opts \<Longrightarrow> lastExecutedMigration = None \<longrightarrow> \<not> resetState opts \<Longrightarrow>
     quiet env (on_last_migration opts env lastExecutedMigration rv states)"
proof -
  assume nd: "\<not> debug opts" and le: "lastExecutedMigration = None \<longrightarrow> \<not> resetState opts"
  have plain: "\<forall>ev \<in> set (ReverseModels # assemble_calls env p c @ map (\<lambda>v. ConsoleLog (f v)) vs).
          (\<forall>e. ev \<noteq> ConsoleError e) \<and> (\<forall>n. ev = ProcessExit n \<longrightarrow> n = 0) \<and> rejection env ev = None"
    for p c f vs
    by (auto simp: assemble_calls_def rejection_def)
  have tail: "quiet env
      (if preview opts then preview_output env m
       else PruneOldMigFiles rv d
            # (case pruneOldMigFiles env rv d opts of
                 Some err \<Rightarrow> [UnhandledRejection err]
               | None \<Rightarrow> on_pruned opts env lastExecutedMigration rv cur m))" for m d cur
    using nd le
    by (auto simp: preview_output_def quiet_def rejection_def split: option.splits
        dest: quiet_on_pruned [of opts lastExecutedMigration env rv cur m, unfolded quiet_def, rule_format])
  have nochange: "quiet env [ConsoleLog ''No changes found'', ProcessExit 0]"
    by (simp add: quiet_def rejection_def)
  let ?p = "st_tables (previousState opts env (first_row states))"
  let ?c = "st_tables (currentState opts env rv)"
  let ?m = "assemble env ?p ?c"
  show ?thesis
  proof (cases "\<not> resetState opts \<and> length (commandsUp ?m) = 0")
    case True
    then have "on_last_migration opts env lastExecutedMigration rv states =
        (ReverseModels # assemble_calls env ?p ?c @ map (\<lambda>v. ConsoleLog (id v)) [])
          @ [ConsoleLog ''No changes found'', ProcessExit 0]"
      by (simp add: on_last_migration_def Let_def)
    then show ?thesis
      using quiet_append [OF nochange plain [of ?p ?c id "[]"]] by simp
  next
    case False
    then have "on_last_migration opts env lastExecutedMigration rv states =
        (ReverseModels # assemble_calls env ?p ?c
           @ map (\<lambda>v. ConsoleLog ((\<lambda>v. ''[Actions] '' @ v) v)) (consoleOut ?m))
          @ (if preview opts then preview_output env ?m
             else PruneOldMigFiles rv (migrationsDir opts env)
               # (case pruneOldMigFiles env rv (migrationsDir opts env) opts of
                    Some err \<Rightarrow> [UnhandledRejection err]
                  | None \<Rightarrow> on_pruned opts env lastExecutedMigration rv (currentState opts env rv) ?m))"
      by (auto simp add: on_last_migration_def Let_def)
    then show ?thesis
      using quiet_append [OF tail plain [of ?p ?c "\<lambda>v. ''[Actions] '' @ v" "consoleOut ?m"],
          of ?m "migrationsDir opts env" "currentState opts env rv"]
      by (simp only:)
  qed
qed

lemma quiet_on_last_executed:
  "\<not> debug opts \<Longrightarrow> quiet env (on_last_executed opts env names)"
  unfolding on_last_executed_def Let_def
  by (auto simp: quiet_single quiet_Nil catch_handler_def rejection_def settled_def select_sql_distinct
      quiet_on_last_migration intro!: quiet_Cons split: sum.splits)

lemma quiet_makemigration:
  "\<not> debug opts \<Longrightarrow> quiet env (makemigration opts env)"
proof -
  assume nd: "\<not> debug opts"
  have u: "quiet env usage"
    by (auto simp: quiet_def usage_def rejection_def)
  have "quiet env
     (CreateTableCall ''SequelizeMeta'' meta_columns
        # (case createTable env ''SequelizeMeta'' of
             Some err \<Rightarrow> catch_handler opts err
           | None \<Rightarrow>
               CreateTableCall ''SequelizeMetaMigrations'' meta_migrations_columns
               # (case createTable env ''SequelizeMetaMigrations'' of
                    Some err \<Rightarrow> catch_handler opts err
                  | None \<Rightarrow>
                      Query select_last_executed_sql SELECT
                      # (case select_name env select_last_executed_sql of
                           Inl err \<Rightarrow> catch_handler opts err
                         | Inr rows \<Rightarrow> on_last_executed opts env rows))))"
    using nd
    by (auto simp: quiet_Nil catch_handler_def rejection_def settled_def quiet_on_last_executed
        intro!: quiet_Cons split: sum.splits option.splits)
  from quiet_append [OF this, of "[LoadModels (modelsDir opts env), LoggingOff]"] u nd
  show ?thesis
    by (simp add: makemigration_def rejection_def)
qed

text \<open>
  Claim C9. Without \<^verbatim>\<open>--debug\<close> the handler given to every \<^verbatim>\<open>.catch\<close> does nothing. In
  every run the script then writes nothing to the error output and never calls
  \<^verbatim>\<open>process.exit\<close> with a status other than 0; and when one of the two \<^verbatim>\<open>createTable\<close>
  calls, one of the two SELECT queries, the DELETE or the bulk insert is rejected, that call
  is the last event of the run.
\<close>

theorem rejections_swallowed_without_debug:
  assumes "\<not> debug opts"
  shows "(\<forall>err. catch_handler opts err = ([] :: ('t, 'a) event list))
       \<and> (\<forall>ev \<in> set (makemigration opts (env :: ('t, 'a) environment)).
            (\<forall>err. ev \<noteq> ConsoleError err)
          \<and> (\<forall>n. ev = ProcessExit n \<longrightarrow> n = 0)
          \<and> (rejection env ev \<noteq> None \<longrightarrow> ev = last (makemigration opts env)))"
  using assms quiet_makemigration [of opts env] by (simp add: catch_handler_def quiet_def)

theorem rejections_swallowed_without_debug_witness:
  "\<not> debug demo_options
   \<and> rejection failing_insert_env (last (makemigration demo_options failing_insert_env))
       = Some (Rejection ''connection lost'')
   \<and> ConsoleError (Rejection ''connection lost'') \<notin> set (makemigration demo_options failing_insert_env)
   \<and> ProcessExit 1 \<notin> set (makemigration demo_options failing_insert_env)
   \<and> catch_handler demo_options (Rejection ''connection lost'') = ([] :: (string list, string) event list)"
  using rejections_swallowed_without_debug [of demo_options failing_insert_env]
  by (simp add: demo_defs script_defs rejection_def)

subsection \<open>\<^verbatim>\<open>--reset-state\<close> on a database without executed migration, and the revision\<close>

lemma split_char_first: "\<exists>ps. split_char sep s = takeWhile (\<lambda>c. c \<noteq> sep) s # ps"
  by (induction s) auto

lemma revision_of_Some: "revision_of (Some nm) = RevString (takeWhile (\<lambda>c. c \<noteq> CHR ''-'') nm)"
  using split_char_first [of "CHR ''-''" nm] by (auto simp: revision_of_def)

lemma revision_text_minus_one: "revision_text (RevNumber (- 1)) = ''-1''"
  by code_simp

text \<open>
  Claim C10, as amended. Line 109 tests the value of \<^verbatim>\<open>--reset-state\<close> for truthiness, so the
  option counts only with a non-empty value. With such a value, when the query of
  \<^verbatim>\<open>SequelizeMeta\<close> returns no row, the run is the start-up calls followed by
  \<^verbatim>\<open>process.exit(0)\<close>: no call into the library, no file, no state row. When the query
  returns no row and \<^verbatim>\<open>--reset-state\<close> is absent or has an empty value, the script goes on,
  and the revision used for the state query and handed to the rest of the script is the
  number -1 (line 108). When the query returns a row, the revision is the part of that row's
  name before its first \<^verbatim>\<open>-\<close>.
\<close>

theorem early_exit_and_revision:
  "(resetState opts \<longleftrightarrow> (\<exists>v. reset_state opts = Some v \<and> v \<noteq> []))
   \<and> (\<not> help_opt opts
      \<and> createTable env ''SequelizeMeta'' = None
      \<and> createTable env ''SequelizeMetaMigrations'' = None
      \<and> select_name env select_last_executed_sql = Inr []
      \<and> resetState opts
    \<longrightarrow> makemigration opts env = startup opts env @ [ProcessExit 0])
   \<and> (\<not> help_opt opts
      \<and> createTable env ''SequelizeMeta'' = None
      \<and> createTable env ''SequelizeMetaMigrations'' = None
      \<and> select_name env select_last_executed_sql = Inr []
      \<and> \<not> resetState opts
    \<longrightarrow> makemigration opts env =
          startup opts env
            @ Query (select_state_sql (RevNumber (- 1))) SELECT
            # (case select_state env (select_state_sql (RevNumber (- 1))) of
                 Inl err \<Rightarrow> catch_handler opts err
               | Inr states \<Rightarrow> on_last_migration opts env None (RevNumber (- 1)) states))
   \<and> (\<not> help_opt opts
      \<and> createTable env ''SequelizeMeta'' = None
      \<and> createTable env ''SequelizeMetaMigrations'' = None
      \<and> select_name env select_last_executed_sql = Inr (nm # others)
    \<longrightarrow> (let revision = RevString (takeWhile (\<lambda>c. c \<noteq> CHR ''-'') nm)
         in makemigration opts env =
              startup opts env
                @ Query (select_state_sql revision) SELECT
                # (case select_state env (select_state_sql revision) of
                     Inl err \<Rightarrow> catch_handler opts err
                   | Inr states \<Rightarrow> on_last_migration opts env (Some nm) revision states)))"
proof -
  have "resetState opts \<longleftrightarrow> (\<exists>v. reset_state opts = Some v \<and> v \<noteq> [])"
    by (simp add: resetState_def truthy_def split: option.splits)
  moreover have "revision_of None = RevNumber (- 1)"
    by (simp add: revision_of_def)
  ultimately show ?thesis
    by (simp add: makemigration_to_last_executed on_last_executed_def first_row_def
        revision_of_Some Let_def cong: sum.case_cong)
qed

theorem early_exit_and_revision_witness:
  "resetState reset_options
   \<and> reset_state reset_options = Some ''1''
   \<and> select_name fresh_database_env select_last_executed_sql = Inr []
   \<and> makemigration reset_options fresh_database_env = startup reset_options fresh_database_env @ [ProcessExit 0]
   \<and> \<not> resetState demo_options
   \<and> Query (select_state_sql (RevNumber (- 1))) SELECT \<in> set (makemigration demo_options fresh_database_env)
   \<and> select_name demo_env select_last_executed_sql = Inr [''20230101120000-init.js'']
   \<and> takeWhile (\<lambda>c. c \<noteq> CHR ''-'') ''20230101120000-init.js'' = ''20230101120000''
   \<and> Query (select_state_sql (RevString ''20230101120000'')) SELECT \<in> set (makemigration demo_options demo_env)"
  using early_exit_and_revision [of reset_options fresh_database_env "''20230101120000-init.js''" "[]"]
    early_exit_and_revision [of demo_options fresh_database_env "''20230101120000-init.js''" "[]"]
    early_exit_and_revision [of demo_options demo_env "''20230101120000-init.js''" "[]"]
  by (simp add: demo_defs script_defs)

text \<open>
  Given with an empty value, \<^verbatim>\<open>--reset-state\<close> does not stop the script on a database without
  executed migration: \<^verbatim>\<open>resetState\<close> is the empty string, the guard of line 109 is false, and
  the script queries the state of revision -1, diffs the models against the empty state,
  writes a migration file and inserts a state row. The revision is then no prefix of any
  migration name, and neither is it in a run without \<^verbatim>\<open>--reset-state\<close> on such a database.
\<close>

theorem early_exit_counterexample:
  "reset_state empty_reset_options = Some []
   \<and> select_name fresh_database_env select_last_executed_sql = Inr []
   \<and> makemigration empty_reset_options fresh_database_env
       \<noteq> startup empty_reset_options fresh_database_env @ [ProcessExit 0]
   \<and> revision_text (RevNumber (- 1)) = ''-1''
   \<and> makemigration empty_reset_options fresh_database_env ! 5
       = Query (select_state_sql (RevNumber (- 1))) SELECT
   \<and> ParseDifference [] [''Users'', ''Posts''] \<in> set (makemigration empty_reset_options fresh_database_env)
   \<and> list_ex persists (makemigration empty_reset_options fresh_database_env)
   \<and> reset_state demo_options = None
   \<and> makemigration demo_options fresh_database_env ! 5
       = Query (select_state_sql (RevNumber (- 1))) SELECT"
  using revision_text_minus_one by (simp add: demo_defs script_defs persists_def)

section \<open>Properties of the specified library\<close>

lemmas example_defs = id_column_def title_column_def author_key_def users_table_def
  posts_table_def blog_snapshot_def unsorted_actions_def sorted_actions_def


subsection \<open>The difference of a snapshot with itself\<close>

lemma concat_map_empty: "(\<And>x. x \<in> set xs \<Longrightarrow> f x = []) \<Longrightarrow> concat (map f xs) = []"
  by (induction xs) auto

lemma diff_columns_same: "diff_columns t cs cs = []"
  unfolding diff_columns_def
  by (auto intro!: concat_map_empty split: option.splits)

lemma diff_keyed_same: "diff_keyed identity add remove entries entries = []"
  unfolding diff_keyed_def
  by (force intro!: concat_map_empty)

lemma diff_table_same: "diff_table t d d = []"
  by (simp add: diff_table_def diff_columns_same diff_indexes_def diff_foreign_keys_def diff_keyed_same)

text \<open>
  Claim C2. The difference of a snapshot with itself is the empty sequence of actions; and
  \<open>diff\<close>, being a function of its two arguments alone, gives equal action sequences for equal
  snapshots.
\<close>

theorem diff_identity_and_determinism:
  "diff S S = [] \<and> (S = S' \<and> T = T' \<longrightarrow> diff S T = diff S' T')"
  unfolding diff_def
  by (auto intro!: concat_map_empty simp: diff_table_same split: option.splits)

theorem diff_identity_and_determinism_witness:
  "diff blog_snapshot blog_snapshot = []
   \<and> diff [] blog_snapshot = [CreateTable ''Users'' users_table, CreateTable ''Posts'' posts_table]"
proof -
  have "diff [] blog_snapshot = [CreateTable ''Users'' users_table, CreateTable ''Posts'' posts_table]"
    by (simp add: diff_def blog_snapshot_def)
  then show ?thesis
    using diff_identity_and_determinism [of blog_snapshot blog_snapshot "[]" "[]"]
    by simp
qed

subsection \<open>The stable topological sort\<close>

lemma depends_on_irrefl: "\<not> depends_on a a"
  by (cases a) (auto simp: depends_on_def)


lemma pick_picked: "pick P xs = Some (y, ys) \<Longrightarrow> P y \<and> mset xs = add_mset y (mset ys)"
  by (induction xs arbitrary: y ys) (auto split: if_splits option.splits)

lemma topological_sort_Nil [simp]: "topological_sort [] = Inr []"
  by (subst topological_sort.simps) simp

lemma topological_sort_step:
  "pending \<noteq> [] \<Longrightarrow> topological_sort pending =
     (case pick (ready pending) pending of
        None \<Rightarrow> Inl (CyclicDependency (remdups (map target_table pending)))
      | Some (a, rest) \<Rightarrow>
          (case topological_sort rest of Inl err \<Rightarrow> Inl err | Inr ordered \<Rightarrow> Inr (a # ordered)))"
  by (subst topological_sort.simps) simp

lemma topological_sort_mset: "topological_sort acts = Inr ordered \<Longrightarrow> mset ordered = mset acts"
proof (induction acts arbitrary: ordered rule: topological_sort.induct)
  case (1 pending)
  show ?case
  proof (cases "pending = []")
    case True
    with "1.prems" show ?thesis by simp
  next
    case False
    with "1.prems" obtain a rest tail where
      p: "pick (ready pending) pending = Some (a, rest)"
      and t: "topological_sort rest = Inr tail" and o: "ordered = a # tail"
      by (auto simp: topological_sort_step split: option.splits sum.splits)
    from "1.IH" [OF False p refl t] pick_picked [OF p] o show ?thesis
      by simp
  qed
qed

lemma ready_mono: "ready pending a \<Longrightarrow> set rest \<subseteq> set pending \<Longrightarrow> ready rest a"
  by (auto simp: ready_def)

lemma topological_sort_ordered: "topological_sort acts = Inr ordered \<Longrightarrow> dependency_ordered ordered"
proof (induction acts arbitrary: ordered rule: topological_sort.induct)
  case (1 pending)
  show ?case
  proof (cases "pending = []")
    case True
    with "1.prems" show ?thesis by simp
  next
    case False
    with "1.prems" obtain a rest tail where
      p: "pick (ready pending) pending = Some (a, rest)"
      and t: "topological_sort rest = Inr tail" and o: "ordered = a # tail"
      by (auto simp: topological_sort_step split: option.splits sum.splits)
    have "set tail \<subseteq> set pending"
      using topological_sort_mset [OF t] pick_picked [OF p]
      by (metis mset_eq_setD set_mset_add_mset_insert set_mset_mset subset_insertI)
    with pick_picked [OF p] have "ready tail a"
      by (auto intro: ready_mono)
    with "1.IH" [OF False p refl t] o show ?thesis
      by simp
  qed
qed




lemma dependency_ordered_nth:
  "dependency_ordered acts \<Longrightarrow> i < j \<Longrightarrow> j < length acts \<Longrightarrow> \<not> depends_on (acts ! i) (acts ! j)"
proof (induction acts arbitrary: i j)
  case Nil
  then show ?case by simp
next
  case (Cons a rest)
  show ?case
  proof (cases i)
    case 0
    with Cons.prems have "rest ! (j - 1) \<in> set rest" by (cases j) auto
    with Cons.prems 0 show ?thesis
      by (cases j) (auto simp: ready_def)
  next
    case (Suc i')
    with Cons show ?thesis
      by (cases j) auto
  qed
qed







lemma sort_actions_ordered: "sort_actions acts = Inr ordered \<Longrightarrow> dependency_ordered ordered"
  unfolding sort_actions_def by (rule topological_sort_ordered)

lemma defer_unsorted_actions: "defer_foreign_keys unsorted_actions = unsorted_actions"
  by (simp add: defer_foreign_keys_def conflicting_def carries_key_to_def example_defs)

lemma sort_unsorted_actions: "sort_actions unsorted_actions = Inr sorted_actions"
  unfolding sort_actions_def defer_unsorted_actions
  by (simp add: unsorted_actions_def sorted_actions_def topological_sort_step ready_def
      depends_on_def author_key_def posts_table_def carries_key_to_def)









text \<open>
  Claim C4. In a sequence produced by the sort, the createTable of a table T comes before
  every addColumn, removeColumn, changeColumn, addIndex, removeIndex and addForeignKey on T,
  and before every addForeignKey that references T.
\<close>

theorem create_table_precedes_dependents:
  assumes "sort_actions acts = Inr ordered"
    and "i < length ordered" and "j < length ordered"
    and "ordered ! i = CreateTable t d"
    and "(alters_table (ordered ! j) \<and> target_table (ordered ! j) = t)
         \<or> adds_reference_to (ordered ! j) t"
  shows "i < j"
proof (rule ccontr)
  assume "\<not> i < j"
  moreover have "depends_on (ordered ! j) (ordered ! i)"
    using assms(4,5) by (cases "ordered ! j") (auto simp: depends_on_def)
  moreover from this have "i \<noteq> j"
    using depends_on_irrefl by metis
  ultimately show False
    using dependency_ordered_nth [OF sort_actions_ordered [OF assms(1)], of j i] assms(2) by simp
qed

theorem create_table_precedes_dependents_witness:
  "sort_actions unsorted_actions = Inr sorted_actions
   \<and> sorted_actions ! 2 = CreateTable ''Posts'' posts_table
   \<and> sorted_actions ! 3 = AddColumn ''Posts'' ''title'' title_column
   \<and> unsorted_actions ! 0 = AddColumn ''Posts'' ''title'' title_column
   \<and> unsorted_actions ! 3 = CreateTable ''Posts'' posts_table
   \<and> (2 :: nat) < 3"
proof -
  have places: "sorted_actions ! 2 = CreateTable ''Posts'' posts_table"
    "sorted_actions ! 3 = AddColumn ''Posts'' ''title'' title_column"
    "unsorted_actions ! 0 = AddColumn ''Posts'' ''title'' title_column"
    "unsorted_actions ! 3 = CreateTable ''Posts'' posts_table"
    "length sorted_actions = 4"
    by (simp_all add: sorted_actions_def unsorted_actions_def)
  show ?thesis
    using create_table_precedes_dependents [OF sort_unsorted_actions, of 2 3 "''Posts''" posts_table]
      places sort_unsorted_actions
    by simp
qed

text \<open>
  Claim C5. In a sequence produced by the sort, every removeForeignKey, removeColumn and
  removeIndex that targets a table T, and every removeForeignKey whose foreign key
  references T, comes before the dropTable of T.
\<close>

theorem detaching_precedes_drop_table:
  assumes "sort_actions acts = Inr ordered"
    and "i < length ordered" and "j < length ordered"
    and "ordered ! i = DropTable t d"
    and "detaches (ordered ! j)"
    and "target_table (ordered ! j) = t \<or> removes_reference_to (ordered ! j) t"
  shows "j < i"
proof (rule ccontr)
  assume "\<not> j < i"
  moreover have "depends_on (ordered ! i) (ordered ! j)"
    using assms(4,5,6) by (auto simp: depends_on_def)
  moreover from this have "i \<noteq> j"
    using depends_on_irrefl by metis
  ultimately show False
    using dependency_ordered_nth [OF sort_actions_ordered [OF assms(1)], of i j] assms(3) by simp
qed

theorem detaching_precedes_drop_table_witness:
  "sort_actions unsorted_actions = Inr sorted_actions
   \<and> sorted_actions ! 1 = DropTable ''Users'' users_table
   \<and> sorted_actions ! 0 = RemoveForeignKey ''Comments'' ''comments_author'' author_key
   \<and> referenced_table author_key = ''Users''
   \<and> unsorted_actions ! 1 = DropTable ''Users'' users_table
   \<and> unsorted_actions ! 2 = RemoveForeignKey ''Comments'' ''comments_author'' author_key
   \<and> (0 :: nat) < 1"
proof -
  have places: "sorted_actions ! 1 = DropTable ''Users'' users_table"
    "sorted_actions ! 0 = RemoveForeignKey ''Comments'' ''comments_author'' author_key"
    "unsorted_actions ! 1 = DropTable ''Users'' users_table"
    "unsorted_actions ! 2 = RemoveForeignKey ''Comments'' ''comments_author'' author_key"
    "length sorted_actions = 4"
    by (simp_all add: sorted_actions_def unsorted_actions_def)
  have target: "referenced_table author_key = ''Users''"
    by (simp add: author_key_def)
  show ?thesis
    using detaching_precedes_drop_table [OF sort_unsorted_actions, of 1 0 "''Users''" users_table]
      places target sort_unsorted_actions
    by simp
qed

end
